theory Spec2Isabelle
  imports Complex_Main "HOL-Library.Log_Nat" "HOL-Library.Multiset"
begin

section \<open>JavaScript numbers\<close>

text \<open>
  Every JavaScript number is an IEEE 754 binary64 value. A finite one is kept here as the
  rational it denotes, and an arithmetic operation computes the exact rational result and
  rounds it to the nearest binary64 value, ties to the even significand. The two zeros are
  not told apart, and the infinities are left out: no quantity of the middleware or of the
  scoring handler leaves the range of the finite doubles.
\<close>

definition pow2 :: "int \<Rightarrow> rat" where
  "pow2 e = (if 0 \<le> e then 2 ^ nat e else 1 / 2 ^ nat (- e))"

text \<open>For \<open>0 < x\<close>, \<open>binade x\<close> is the exponent \<open>e\<close> with \<open>2\<^sup>e \<le> x < 2\<^sup>e\<^sup>+\<^sup>1\<close>.\<close>

definition binade :: "rat \<Rightarrow> int" where
  "binade x = (if 1 \<le> x then int (floorlog 2 (nat \<lfloor>x\<rfloor>)) - 1
               else - int (floorlog 2 (nat (\<lceil>1 / x\<rceil> - 1))))"

definition round_half_even :: "rat \<Rightarrow> int" where
  "round_half_even x =
     (let f = \<lfloor>x\<rfloor>; d = x - of_int f
      in if d < 1 / 2 then f else if 1 / 2 < d then f + 1 else if even f then f else f + 1)"

text \<open>
  The spacing of the doubles around \<open>x\<close>: 52 fraction bits below the leading one, and the
  fixed spacing \<open>2\<^sup>-\<^sup>1\<^sup>0\<^sup>7\<^sup>4\<close> of the subnormal range.
\<close>

definition ulp :: "rat \<Rightarrow> rat" where
  "ulp x = pow2 (max (binade \<bar>x\<bar>) (- 1022) - 52)"

definition to_double :: "rat \<Rightarrow> rat" where
  "to_double x = (if x = 0 then 0 else of_int (round_half_even (x / ulp x)) * ulp x)"

datatype number = Num rat | NaN

text \<open>A decimal literal of the source denotes the double nearest to it.\<close>

definition lit :: "rat \<Rightarrow> number" where
  "lit x = Num (to_double x)"

fun js_add :: "number \<Rightarrow> number \<Rightarrow> number" where
  "js_add (Num a) (Num b) = Num (to_double (a + b))"
| "js_add _ _ = NaN"

fun js_mul :: "number \<Rightarrow> number \<Rightarrow> number" where
  "js_mul (Num a) (Num b) = Num (to_double (a * b))"
| "js_mul _ _ = NaN"

text \<open>
  Division is only ever applied to a divisor that is a positive count or the literal 100 or
  1000; the quotient by zero, an infinity or NaN in JavaScript, is given as NaN.
\<close>

fun js_div :: "number \<Rightarrow> number \<Rightarrow> number" where
  "js_div (Num a) (Num b) = (if b = 0 then NaN else Num (to_double (a / b)))"
| "js_div _ _ = NaN"

text \<open>Comparisons with NaN are false.\<close>

fun js_ge :: "number \<Rightarrow> number \<Rightarrow> bool" where
  "js_ge (Num a) (Num b) = (b \<le> a)"
| "js_ge _ _ = False"

text \<open>\<open>Math.round\<close> rounds to the nearest integer, a tie upwards; \<open>Math.ceil\<close> rounds up.\<close>

fun Math_round :: "number \<Rightarrow> number" where
  "Math_round (Num a) = Num (of_int \<lfloor>a + 1 / 2\<rfloor>)"
| "Math_round NaN = NaN"

fun Math_ceil :: "number \<Rightarrow> number" where
  "Math_ceil (Num a) = Num (of_int \<lceil>a\<rceil>)"
| "Math_ceil NaN = NaN"

section \<open>Property names inherited by every object literal\<close>

text \<open>
  A property read \<open>obj[key]\<close> on an object literal that has no own property \<open>key\<close>
  continues in \<open>Object.prototype\<close>. These are its property names (ECMA-262, Object
  prototype object and Annex B); eleven of them hold built-in functions and
  \<open>__proto__\<close> is an accessor that yields the prototype of the object read.
\<close>

definition object_prototype_keys :: "string list" where
  "object_prototype_keys =
     [''constructor'', ''__defineGetter__'', ''__defineSetter__'', ''hasOwnProperty'',
      ''__lookupGetter__'', ''__lookupSetter__'', ''isPrototypeOf'', ''propertyIsEnumerable'',
      ''toString'', ''valueOf'', ''__proto__'', ''toLocaleString'']"

section \<open>Risk scoring (routes/resources.js)\<close>

record risk_entry =
  score :: rat
  description :: string

text \<open>The table \<open>riskFactors\<close>; each score is the decimal literal of the source.\<close>

definition riskFactors :: "(string \<times> (string \<times> risk_entry) list) list" where
  "riskFactors =
   [(''case_complexity'',
      [(''low'', \<lparr>score = 2/10, description = ''Straightforward case with clear precedents''\<rparr>),
       (''medium'', \<lparr>score = 5/10, description = ''Moderate complexity with some challenging aspects''\<rparr>),
       (''high'', \<lparr>score = 8/10, description = ''Complex case with multiple legal issues''\<rparr>)]),
    (''evidence_strength'',
      [(''strong'', \<lparr>score = 1/10, description = ''Strong evidence supporting your position''\<rparr>),
       (''moderate'', \<lparr>score = 4/10, description = ''Adequate evidence with some gaps''\<rparr>),
       (''weak'', \<lparr>score = 7/10, description = ''Limited or weak evidence''\<rparr>)]),
    (''opponent_resources'',
      [(''limited'', \<lparr>score = 2/10, description = ''Opponent has limited legal resources''\<rparr>),
       (''moderate'', \<lparr>score = 4/10, description = ''Opponent has adequate legal representation''\<rparr>),
       (''extensive'', \<lparr>score = 7/10, description = ''Opponent has extensive legal resources''\<rparr>)]),
    (''time_constraints'',
      [(''adequate'', \<lparr>score = 1/10, description = ''Sufficient time to prepare case''\<rparr>),
       (''tight'', \<lparr>score = 4/10, description = ''Limited time for case preparation''\<rparr>),
       (''urgent'', \<lparr>score = 8/10, description = ''Very tight deadlines and time pressure''\<rparr>)]),
    (''financial_impact'',
      [(''low'', \<lparr>score = 2/10, description = ''Low financial stakes''\<rparr>),
       (''medium'', \<lparr>score = 5/10, description = ''Moderate financial implications''\<rparr>),
       (''high'', \<lparr>score = 8/10, description = ''High financial stakes involved''\<rparr>)])]"

text \<open>
  What the guard \<open>riskFactors[factorKey] && riskFactors[factorKey][factors[factorKey]]\<close>
  can yield, as far as the loop body tells the values apart: a falsy value, an entry of
  the table, or a truthy value that is not an entry and so has neither a \<open>score\<close> nor a
  \<open>description\<close> property. \<open>Host_defined\<close> marks the reads whose result is fixed by the
  JavaScript engine and not by this repository or by a property every engine shares.
\<close>

datatype factor_lookup = Falsy | Entry risk_entry | Foreign | Host_defined

text \<open>
  Reading property \<open>l\<close> of the built-in value \<open>Object.prototype[k]\<close>. Under
  \<open>__proto__\<close> that value is \<open>Object.prototype\<close> itself, whose members are functions
  and whose own prototype is \<open>null\<close>. Every other member is a built-in function, and its
  \<open>name\<close> is a non-empty string; its remaining properties differ between engines.
\<close>

definition builtin_get :: "string \<Rightarrow> string \<Rightarrow> factor_lookup" where
  "builtin_get k l =
     (if k = ''__proto__''
      then (if l \<in> set object_prototype_keys \<and> l \<noteq> ''__proto__'' then Foreign else Falsy)
      else if l = ''name'' then Foreign else Host_defined)"

definition riskFactors_get :: "string \<Rightarrow> string \<Rightarrow> factor_lookup" where
  "riskFactors_get k l =
     (case map_of riskFactors k of
        Some row \<Rightarrow>
          (case map_of row l of
             Some e \<Rightarrow> Entry e
           | None \<Rightarrow> if l \<in> set object_prototype_keys then Foreign else Falsy)
      | None \<Rightarrow> if k \<in> set object_prototype_keys then builtin_get k l else Falsy)"

record factor_detail =
  d_value :: string
  d_score :: "number option"
  d_description :: "string option"

text \<open>
  The assignment \<open>obj[key] = v\<close> on an object kept as the list of its own enumerable
  properties in creation order. Assigning an object to \<open>__proto__\<close> replaces the
  prototype and creates no own property.
\<close>

fun assign :: "string \<Rightarrow> 'v \<Rightarrow> (string \<times> 'v) list \<Rightarrow> (string \<times> 'v) list" where
  "assign k v [] = [(k, v)]"
| "assign k v ((k', v') # ps) = (if k = k' then (k, v) # ps else (k', v') # assign k v ps)"

definition set_property :: "string \<Rightarrow> 'v \<Rightarrow> (string \<times> 'v) list \<Rightarrow> (string \<times> 'v) list" where
  "set_property k v ps = (if k = ''__proto__'' then ps else assign k v ps)"

record tally =
  totalRiskScore :: number
  factorCount :: nat
  assessmentDetails :: "(string \<times> factor_detail) list"

text \<open>One turn of the \<open>forEach\<close> over \<open>Object.keys(factors)\<close>.\<close>

definition tally_factor :: "string \<times> string \<Rightarrow> tally \<Rightarrow> tally option" where
  "tally_factor kl t =
     (case riskFactors_get (fst kl) (snd kl) of
        Falsy \<Rightarrow> Some t
      | Entry e \<Rightarrow>
          Some \<lparr>totalRiskScore = js_add (totalRiskScore t) (lit (score e)),
                factorCount = factorCount t + 1,
                assessmentDetails = set_property (fst kl)
                  \<lparr>d_value = snd kl, d_score = Some (lit (score e)),
                   d_description = Some (description e)\<rparr> (assessmentDetails t)\<rparr>
      | Foreign \<Rightarrow>
          Some \<lparr>totalRiskScore = js_add (totalRiskScore t) NaN,
                factorCount = factorCount t + 1,
                assessmentDetails = set_property (fst kl)
                  \<lparr>d_value = snd kl, d_score = None, d_description = None\<rparr>
                  (assessmentDetails t)\<rparr>
      | Host_defined \<Rightarrow> None)"

fun tally_factors :: "(string \<times> string) list \<Rightarrow> tally \<Rightarrow> tally option" where
  "tally_factors [] t = Some t"
| "tally_factors (kl # kls) t =
     (case tally_factor kl t of None \<Rightarrow> None | Some t' \<Rightarrow> tally_factors kls t')"

definition averageRiskScore :: "tally \<Rightarrow> number" where
  "averageRiskScore t =
     (if factorCount t > 0 then js_div (totalRiskScore t) (Num (of_nat (factorCount t)))
      else Num 0)"

definition riskLevel_of :: "number \<Rightarrow> string \<times> string" where
  "riskLevel_of avg =
     (if js_ge avg (lit (7/10)) then (''high'', ''red'')
      else if js_ge avg (lit (4/10)) then (''medium'', ''yellow'')
      else (''low'', ''green''))"

text \<open>
  \<open>factors\<close> is the request's object as the list of its own properties in the order of
  \<open>Object.keys\<close>, the values being strings; \<open>factors.evidence_strength\<close> reads one.
\<close>

definition recommendations_of :: "number \<Rightarrow> (string \<times> string) list \<Rightarrow> string list" where
  "recommendations_of avg factors =
     (if js_ge avg (lit (6/10))
      then [''Consider seeking experienced legal counsel'',
            ''Develop a comprehensive case strategy'',
            ''Allocate additional resources for case preparation'']
      else []) @
     (if map_of factors ''evidence_strength'' = Some ''weak''
      then [''Focus on gathering additional evidence'',
            ''Consider expert witnesses or testimony'']
      else []) @
     (if map_of factors ''time_constraints'' = Some ''urgent''
      then [''Prioritize critical deadlines'',
            ''Consider requesting extensions where possible'']
      else []) @
     (if map_of factors ''opponent_resources'' = Some ''extensive''
      then [''Prepare for well-funded opposition'',
            ''Focus on strong legal arguments and precedents'']
      else [])"

text \<open>Decimal digits of a natural number, as \<open>Number.prototype.toString\<close> prints it.\<close>

fun decimal :: "nat \<Rightarrow> string" where
  "decimal n =
     (if n < 10 then [''0123456789'' ! n]
      else decimal (n div 10) @ [''0123456789'' ! (n mod 10)])"

record case_info =
  ci_id :: string
  ci_title :: string
  ci_type :: string
  ci_status :: string

text \<open>
  What the handler has in hand when it reaches the scoring: the validated body, the
  principal's id, the case it looked up, and the two readings of the clock
  (\<open>new Date()\<close>, in milliseconds) that the assessment object takes.
\<close>

record scoring_input =
  in_userId :: string
  in_caseId :: "string option"
  in_caseInfo :: "case_info option"
  in_factors :: "(string \<times> string) list"
  in_additionalFactors :: "string list"
  in_description :: "string option"
  in_clock_id :: nat
  in_clock_created :: nat

record assessment =
  a_id :: string
  a_userId :: string
  a_caseId :: "string option"
  a_caseInfo :: "case_info option"
  riskScore :: number
  riskLevel :: string
  riskColor :: string
  a_factors :: "(string \<times> factor_detail) list"
  a_additionalFactors :: "string list"
  a_description :: "string option"
  recommendations :: "string list"
  createdAt :: nat

definition initial_tally :: tally where
  "initial_tally = \<lparr>totalRiskScore = Num 0, factorCount = 0, assessmentDetails = []\<rparr>"

text \<open>
  The handler of \<open>POST /risk-assessment\<close> from \<open>let totalRiskScore = 0\<close> to the
  \<open>assessment\<close> object it sends. \<open>None\<close>: the outcome is host-defined.
\<close>

definition risk_assessment :: "scoring_input \<Rightarrow> assessment option" where
  "risk_assessment inp =
     (case tally_factors (in_factors inp) initial_tally of
        None \<Rightarrow> None
      | Some t \<Rightarrow>
          (let avg = averageRiskScore t
           in Some \<lparr>a_id = decimal (in_clock_id inp),
                     a_userId = in_userId inp,
                     a_caseId = in_caseId inp,
                     a_caseInfo = in_caseInfo inp,
                     riskScore = js_div (Math_round (js_mul avg (Num 100))) (Num 100),
                     riskLevel = fst (riskLevel_of avg),
                     riskColor = snd (riskLevel_of avg),
                     a_factors = assessmentDetails t,
                     a_additionalFactors = in_additionalFactors inp,
                     a_description = in_description inp,
                     recommendations = recommendations_of avg (in_factors inp),
                     createdAt = in_clock_created inp\<rparr>))"

text \<open>
  The validation chain in front of the handler (\<open>body('factors.case_complexity').isIn([...])\<close>
  and its four siblings): each of the five factors is present with one of the labels
  listed. Further properties of \<open>factors\<close> are not looked at. The keys of an
  object are distinct.
\<close>

definition validation_chain :: "(string \<times> string list) list" where
  "validation_chain =
     [(''case_complexity'', [''low'', ''medium'', ''high'']),
      (''evidence_strength'', [''strong'', ''moderate'', ''weak'']),
      (''opponent_resources'', [''limited'', ''moderate'', ''extensive'']),
      (''time_constraints'', [''adequate'', ''tight'', ''urgent'']),
      (''financial_impact'', [''low'', ''medium'', ''high''])]"

definition validated :: "(string \<times> string) list \<Rightarrow> bool" where
  "validated factors =
     (distinct (map fst factors) \<and>
      list_all
        (\<lambda>field. case map_of factors (fst field) of
                    None \<Rightarrow> False
                  | Some l \<Rightarrow> List.member (snd field) l)
        validation_chain)"

section \<open>Values and responses of the middleware (middleware/auth.js)\<close>

text \<open>
  The safe integers of JavaScript, those of magnitude below \<open>2\<^sup>5\<^sup>3\<close>. Each of them is a
  double, and \<open>toString\<close> prints it in plain decimal digits.
\<close>

typedef safe_integer = "{n :: int. \<bar>n\<bar> < 2 ^ 53}"
  morphisms integer_value safe_integer
  by (rule exI [of _ 0]) simp

text \<open>
  The values an id can take. \<open>JObject s\<close> is an object whose \<open>toString()\<close> returns
  \<open>s\<close>, as the ObjectId of a stored document returns its hexadecimal digits; the
  numbers are the safe integers.
\<close>

datatype js_value =
  JUndefined | JNull | JNumber safe_integer | JString string | JObject string

text \<open>\<open>v.toString()\<close>; \<open>None\<close> is the TypeError of a method call on undefined or null.\<close>

fun toString :: "js_value \<Rightarrow> string option" where
  "toString JUndefined = None"
| "toString JNull = None"
| "toString (JNumber n) =
     Some (if integer_value n < 0 then ''-'' @ decimal (nat (- integer_value n))
           else decimal (nat (integer_value n)))"
| "toString (JString s) = Some s"
| "toString (JObject s) = Some s"

text \<open>An object is given by what a property read on it returns.\<close>

type_synonym js_object = "string \<Rightarrow> js_value"

record user =
  u_id :: js_value
  isActive :: bool
  role :: string
  plan :: string

datatype payload_extra = No_extra | Levels string string | RetryAfter number

record response =
  status :: nat
  message :: string
  code :: string
  extra :: payload_extra

text \<open>
  How a middleware ends: it calls \<open>next()\<close> (for \<open>authenticateToken\<close> with the user it
  attached to the request), it sends a response, or it throws. \<open>Engine_defined\<close> marks
  an outcome that is fixed by the JavaScript engine only.
\<close>

datatype 'a outcome = Next 'a | Respond response | Throws string | Engine_defined


subsection \<open>authenticateToken\<close>

text \<open>\<open>s.split(c)\<close> for a one-character separator.\<close>

fun split :: "char \<Rightarrow> string \<Rightarrow> string list" where
  "split c [] = [[]]"
| "split c (x # xs) =
     (if x = c then [] # split c xs
      else (case split c xs of [] \<Rightarrow> [[x]] | p # ps \<Rightarrow> (x # p) # ps))"




subsection \<open>checkResourceOwnership\<close>

text \<open>
  The gates run behind \<open>authenticateToken\<close> and take the user it attached.
  \<open>req_resource\<close> and \<open>req_body\<close> are \<open>None\<close> when the request has none.
\<close>

definition checkResourceOwnership ::
  "string \<Rightarrow> js_object option \<Rightarrow> js_object option \<Rightarrow> user \<Rightarrow> unit outcome"
where
  "checkResourceOwnership resourceField req_resource req_body req_user =
     (case (case req_resource of Some r \<Rightarrow> Some r | None \<Rightarrow> req_body) of
        None \<Rightarrow>
          Respond \<lparr>status = 400, message = ''Resource not found'',
                   code = ''RESOURCE_NOT_FOUND'', extra = No_extra\<rparr>
      | Some resource \<Rightarrow>
          (let resourceUserId = resource resourceField;
               currentUserId = u_id req_user
           in case toString resourceUserId of
                None \<Rightarrow> Throws ''TypeError''
              | Some a \<Rightarrow>
                  (case toString currentUserId of
                     None \<Rightarrow> Throws ''TypeError''
                   | Some b \<Rightarrow>
                       if a \<noteq> b
                       then Respond \<lparr>status = 403,
                              message = ''Access denied. You can only access your own resources.'',
                              code = ''ACCESS_DENIED'', extra = No_extra\<rparr>
                       else Next ())))"

subsection \<open>requireSubscription\<close>

definition subscriptionLevels :: "(string \<times> nat) list" where
  "subscriptionLevels = [(''free'', 1), (''premium'', 2), (''enterprise'', 3)]"

text \<open>The plans that the user schema admits (\<open>enum\<close> of \<open>subscription.plan\<close> in models/User.js).\<close>

definition plan_enum :: "string list" where
  "plan_enum = [''free'', ''premium'', ''enterprise'']"

text \<open>
  \<open>subscriptionLevels[plan] || 1\<close>: a level of the table, the built-in object that the
  object literal inherits under that name, or 1.
\<close>

datatype level = Ordinal nat | Builtin

definition level_of :: "string \<Rightarrow> level" where
  "level_of p =
     (case map_of subscriptionLevels p of
        Some n \<Rightarrow> Ordinal n
      | None \<Rightarrow> if p \<in> set object_prototype_keys then Builtin else Ordinal 1)"

text \<open>
  \<open>userLevel < requiredLevelValue\<close>. A built-in object against a number is converted
  to NaN and the comparison is false; two built-in objects are compared as the source
  texts the engine prints for them.
\<close>

definition requireSubscription :: "string \<Rightarrow> user \<Rightarrow> unit outcome" where
  "requireSubscription requiredLevel req_user =
     (let userLevel = level_of (plan req_user);
          requiredLevelValue = level_of requiredLevel
      in case (userLevel, requiredLevelValue) of
           (Ordinal a, Ordinal b) \<Rightarrow>
             if a < b
             then Respond \<lparr>status = 403,
                    message = ''This feature requires '' @ requiredLevel @ '' subscription'',
                    code = ''SUBSCRIPTION_REQUIRED'',
                    extra = Levels requiredLevel (plan req_user)\<rparr>
             else Next ()
         | (Builtin, Builtin) \<Rightarrow> Engine_defined
         | _ \<Rightarrow> Next ())"

subsection \<open>userRateLimit\<close>

text \<open>
  The map \<open>userRequests\<close> of the closure is passed in and returned, and \<open>now\<close> is
  the reading of \<open>Date.now()\<close>. The limit, the window and the timestamps are integers,
  the times in milliseconds and far below \<open>2\<^sup>5\<^sup>3\<close>, where sums and differences of doubles
  are exact; the division by 1000 rounds. \<open>recentRequests[0]\<close> of an empty array is
  undefined, and the arithmetic on it gives NaN.
\<close>

type_synonym rate_store = "string \<Rightarrow> int list option"

definition retryAfter :: "int list \<Rightarrow> int \<Rightarrow> int \<Rightarrow> number" where
  "retryAfter recentRequests windowMs now =
     (case recentRequests of
        [] \<Rightarrow> NaN
      | t # _ \<Rightarrow> Math_ceil (js_div (Num (of_int (t + windowMs - now))) (Num 1000)))"

definition userRateLimit ::
  "int \<Rightarrow> int \<Rightarrow> rate_store \<Rightarrow> user \<Rightarrow> int \<Rightarrow> rate_store \<times> unit outcome"
where
  "userRateLimit maxRequests windowMs userRequests req_user now =
     (case toString (u_id req_user) of
        None \<Rightarrow> (userRequests, Throws ''TypeError'')
      | Some userId \<Rightarrow>
          (let windowStart = now - windowMs;
               userHistory = (case userRequests userId of Some h \<Rightarrow> h | None \<Rightarrow> []);
               recentRequests = filter (\<lambda>timestamp. timestamp > windowStart) userHistory
           in if int (length recentRequests) \<ge> maxRequests
              then (userRequests,
                    Respond \<lparr>status = 429,
                             message = ''Too many requests. Please try again later.'',
                             code = ''RATE_LIMIT_EXCEEDED'',
                             extra = RetryAfter (retryAfter recentRequests windowMs now)\<rparr>)
              else (userRequests(userId \<mapsto> recentRequests @ [now]), Next ())))"

text \<open>
  A run of the gate on a sequence of requests of one user, the map threaded through:
  the outcomes in order.
\<close>

fun requests :: "int \<Rightarrow> int \<Rightarrow> rate_store \<Rightarrow> user \<Rightarrow> int list \<Rightarrow> unit outcome list" where
  "requests maxRequests windowMs userRequests req_user [] = []"
| "requests maxRequests windowMs userRequests req_user (now # later) =
     snd (userRateLimit maxRequests windowMs userRequests req_user now) #
     requests maxRequests windowMs
       (fst (userRateLimit maxRequests windowMs userRequests req_user now)) req_user later"

text \<open>The map after such a run.\<close>

fun store_after :: "int \<Rightarrow> int \<Rightarrow> rate_store \<Rightarrow> user \<Rightarrow> int list \<Rightarrow> rate_store" where
  "store_after maxRequests windowMs userRequests req_user [] = userRequests"
| "store_after maxRequests windowMs userRequests req_user (now # later) =
     store_after maxRequests windowMs
       (fst (userRateLimit maxRequests windowMs userRequests req_user now)) req_user later"

text \<open>
  The window stored for a user, \<open>userRequests.get(userId) || []\<close>, and the order that
  the gate leaves it in when the clock never runs backwards: ascending, and nothing in it
  later than the last reading.
\<close>

definition stored_window :: "rate_store \<Rightarrow> string \<Rightarrow> int list" where
  "stored_window userRequests userId =
     (case userRequests userId of Some h \<Rightarrow> h | None \<Rightarrow> [])"

definition ascending_until :: "int \<Rightarrow> int list \<Rightarrow> bool" where
  "ascending_until now window =
     (sorted window \<and> list_all (\<lambda>timestamp. timestamp \<le> now) window)"

text \<open>The fields of an assessment that the scoring computes.\<close>

definition scoring_part ::
  "assessment \<Rightarrow> number \<times> string \<times> string \<times> (string \<times> factor_detail) list \<times> string list"
where
  "scoring_part a = (riskScore a, riskLevel a, riskColor a, a_factors a, recommendations a)"

section \<open>The specification's wording, for comparison\<close>

text \<open>
  The rate limiter as the specification words its pruning: the timestamps that are not
  older than \<open>now - windowDuration\<close> remain.
\<close>

definition remaining_as_specified :: "int \<Rightarrow> int \<Rightarrow> int list \<Rightarrow> int list" where
  "remaining_as_specified windowMs now history =
     filter (\<lambda>timestamp. \<not> timestamp < now - windowMs) history"

text \<open>The ordinal of a plan as the specification gives it: the table, and 1 otherwise.\<close>

definition ordinal :: "string \<Rightarrow> nat" where
  "ordinal p = (case map_of subscriptionLevels p of Some n \<Rightarrow> n | None \<Rightarrow> 1)"

text \<open>
  The weights of the recognized (factor key, label) pairs of a mapping, read off the
  static table, and their arithmetic mean in exact arithmetic.
\<close>

definition table_weight :: "string \<times> string \<Rightarrow> rat option" where
  "table_weight kl =
     (case map_of riskFactors (fst kl) of
        None \<Rightarrow> None
      | Some row \<Rightarrow> map_option score (map_of row (snd kl)))"

definition recognized_weights :: "(string \<times> string) list \<Rightarrow> rat list" where
  "recognized_weights factors = List.map_filter table_weight factors"

definition mean :: "rat list \<Rightarrow> rat" where
  "mean ws = (if ws = [] then 0 else sum_list ws / of_nat (length ws))"

section \<open>Sample requests\<close>

definition sample_user :: user where
  "sample_user =
     \<lparr>u_id = JNumber (safe_integer 42), isActive = True, role = ''user'', plan = ''free''\<rparr>"


definition constructor_plan_user :: user where
  "constructor_plan_user =
     \<lparr>u_id = JNumber (safe_integer 42), isActive = True, role = ''user'',
      plan = ''constructor''\<rparr>"





definition own_resource :: js_object where
  "own_resource field = (if field = ''userId'' then JString ''42'' else JUndefined)"

definition foreign_resource :: js_object where
  "foreign_resource field = (if field = ''userId'' then JString ''43'' else JUndefined)"

definition one_old_request :: rate_store where
  "one_old_request userId = (if userId = ''42'' then Some [0] else None)"

definition three_recent_requests :: rate_store where
  "three_recent_requests userId = (if userId = ''42'' then Some [1000, 2000, 3000] else None)"

definition no_requests :: rate_store where
  "no_requests userId = None"

definition out_of_order_requests :: rate_store where
  "out_of_order_requests userId = (if userId = ''42'' then Some [5000, 1000] else None)"

definition worst_case :: "(string \<times> string) list" where
  "worst_case =
     [(''case_complexity'', ''high''), (''evidence_strength'', ''weak''),
      (''opponent_resources'', ''extensive''), (''time_constraints'', ''urgent''),
      (''financial_impact'', ''high'')]"

definition boundary_case :: "(string \<times> string) list" where
  "boundary_case =
     [(''case_complexity'', ''medium''), (''evidence_strength'', ''weak''),
      (''opponent_resources'', ''limited''), (''time_constraints'', ''tight''),
      (''financial_impact'', ''low'')]"

definition boundary_case_reordered :: "(string \<times> string) list" where
  "boundary_case_reordered =
     [(''case_complexity'', ''medium''), (''evidence_strength'', ''weak''),
      (''opponent_resources'', ''limited''), (''financial_impact'', ''low''),
      (''time_constraints'', ''tight'')]"

definition inherited_key_case :: "(string \<times> string) list" where
  "inherited_key_case = worst_case @ [(''constructor'', ''name'')]"

text \<open>The state of the loop after the last factor of each sample.\<close>

definition worst_case_tally :: tally where
  "worst_case_tally =
     \<lparr>totalRiskScore = lit (38/10), factorCount = 5,
      assessmentDetails =
        [(''case_complexity'',
           \<lparr>d_value = ''high'', d_score = Some (lit (8/10)),
            d_description = Some ''Complex case with multiple legal issues''\<rparr>),
         (''evidence_strength'',
           \<lparr>d_value = ''weak'', d_score = Some (lit (7/10)),
            d_description = Some ''Limited or weak evidence''\<rparr>),
         (''opponent_resources'',
           \<lparr>d_value = ''extensive'', d_score = Some (lit (7/10)),
            d_description = Some ''Opponent has extensive legal resources''\<rparr>),
         (''time_constraints'',
           \<lparr>d_value = ''urgent'', d_score = Some (lit (8/10)),
            d_description = Some ''Very tight deadlines and time pressure''\<rparr>),
         (''financial_impact'',
           \<lparr>d_value = ''high'', d_score = Some (lit (8/10)),
            d_description = Some ''High financial stakes involved''\<rparr>)]\<rparr>"

definition inherited_key_tally :: tally where
  "inherited_key_tally =
     \<lparr>totalRiskScore = NaN, factorCount = 6,
      assessmentDetails = assessmentDetails worst_case_tally @
        [(''constructor'', \<lparr>d_value = ''name'', d_score = None, d_description = None\<rparr>)]\<rparr>"

text \<open>
  The sum \<open>0.5 + 0.7 + 0.2 + 0.4 + 0.2\<close> taken in this order is the double just below 2,
  \<open>1.9999999999999998\<close>.
\<close>

definition boundary_case_tally :: tally where
  "boundary_case_tally =
     \<lparr>totalRiskScore = Num (9007199254740991 / 4503599627370496), factorCount = 5,
      assessmentDetails =
        [(''case_complexity'',
           \<lparr>d_value = ''medium'', d_score = Some (lit (5/10)),
            d_description = Some ''Moderate complexity with some challenging aspects''\<rparr>),
         (''evidence_strength'',
           \<lparr>d_value = ''weak'', d_score = Some (lit (7/10)),
            d_description = Some ''Limited or weak evidence''\<rparr>),
         (''opponent_resources'',
           \<lparr>d_value = ''limited'', d_score = Some (lit (2/10)),
            d_description = Some ''Opponent has limited legal resources''\<rparr>),
         (''time_constraints'',
           \<lparr>d_value = ''tight'', d_score = Some (lit (4/10)),
            d_description = Some ''Limited time for case preparation''\<rparr>),
         (''financial_impact'',
           \<lparr>d_value = ''low'', d_score = Some (lit (2/10)),
            d_description = Some ''Low financial stakes''\<rparr>)]\<rparr>"

definition boundary_reordered_tally :: tally where
  "boundary_reordered_tally =
     \<lparr>totalRiskScore = Num 2, factorCount = 5,
      assessmentDetails =
        [(''case_complexity'',
           \<lparr>d_value = ''medium'', d_score = Some (lit (5/10)),
            d_description = Some ''Moderate complexity with some challenging aspects''\<rparr>),
         (''evidence_strength'',
           \<lparr>d_value = ''weak'', d_score = Some (lit (7/10)),
            d_description = Some ''Limited or weak evidence''\<rparr>),
         (''opponent_resources'',
           \<lparr>d_value = ''limited'', d_score = Some (lit (2/10)),
            d_description = Some ''Opponent has limited legal resources''\<rparr>),
         (''financial_impact'',
           \<lparr>d_value = ''low'', d_score = Some (lit (2/10)),
            d_description = Some ''Low financial stakes''\<rparr>),
         (''time_constraints'',
           \<lparr>d_value = ''tight'', d_score = Some (lit (4/10)),
            d_description = Some ''Limited time for case preparation''\<rparr>)]\<rparr>"

section \<open>Rounding to a double\<close>

text \<open>
  Three facts on \<open>to_double\<close> carry what follows: the result is within half a unit in
  the last place of the exact value, integers below \<open>2\<^sup>5\<^sup>3\<close> are doubles, and so the
  ceiling of a quotient by 1000 is not changed by the rounding of the quotient.
\<close>

lemma pow2_power_int: "pow2 e = 2 powi e"
  by (simp add: pow2_def power_int_def inverse_eq_divide power_one_over)

lemma pow2_pos: "0 < pow2 e"
  by (simp add: pow2_power_int)

lemma binade_lower_ge1:
  assumes "1 \<le> x"
  shows "pow2 (binade x) \<le> x"
proof -
  define n where "n = nat \<lfloor>x\<rfloor>"
  define k where "k = floorlog 2 n"
  have n: "0 < n" using assms by (simp add: n_def)
  have b: "2 ^ (k - 1) \<le> n"
    unfolding k_def using floorlog_bounds [of n 2] n by simp
  have k: "0 < k"
    unfolding k_def using n floorlog_eq_zero_iff [of 2 n] by auto
  have e: "binade x = int k - 1"
    using assms by (simp add: binade_def n_def k_def)
  have "nat (int k - 1) = k - 1" by simp
  with k have "pow2 (binade x) = 2 ^ (k - 1)"
    by (simp add: e pow2_def)
  also have "\<dots> = rat_of_nat (2 ^ (k - 1))" by simp
  also have "\<dots> \<le> rat_of_nat n"
    using b by (rule of_nat_mono)
  also have "rat_of_nat n \<le> x"
    using assms by (simp add: n_def)
  finally show ?thesis .
qed

lemma round_half_even_of_int: "round_half_even (of_int n) = n"
  by (simp add: round_half_even_def)

lemma round_half_even_error: "\<bar>of_int (round_half_even y) - y\<bar> \<le> 1 / 2"
proof -
  have "of_int \<lfloor>y\<rfloor> \<le> y" "y < of_int \<lfloor>y\<rfloor> + 1" by linarith+
  then show ?thesis
    unfolding round_half_even_def Let_def by (auto simp: abs_le_iff)
qed


lemma binade_lower_lt1:
  assumes "0 < x" "x < 1"
  shows "pow2 (binade x) \<le> x"
proof -
  define m where "m = \<lceil>1 / x\<rceil>"
  define n where "n = nat (m - 1)"
  define k where "k = floorlog 2 n"
  have y: "1 < 1 / x" using assms by simp
  then have m: "2 \<le> m" unfolding m_def by linarith
  then have n: "0 < n" by (simp add: n_def)
  have "n < 2 ^ k"
    unfolding k_def using floorlog_bounds [of n 2] n by simp
  then have "n + 1 \<le> 2 ^ k" by simp
  then have "rat_of_nat (n + 1) \<le> rat_of_nat (2 ^ k)" by (rule of_nat_mono)
  moreover have "rat_of_nat (n + 1) = of_int m"
    using m by (simp add: n_def)
  ultimately have "of_int m \<le> (2::rat) ^ k" by simp
  moreover have "1 / x \<le> of_int m" unfolding m_def by linarith
  ultimately have "1 / x \<le> 2 ^ k" by linarith
  then have "1 / 2 ^ k \<le> x"
    using assms by (simp add: field_simps)
  moreover have "binade x = - int k"
    using assms by (simp add: binade_def m_def n_def k_def)
  moreover have "0 < k"
    unfolding k_def using n floorlog_eq_zero_iff [of 2 n] by auto
  ultimately show ?thesis
    by (simp add: pow2_def)
qed

lemma binade_lower: "0 < x \<Longrightarrow> pow2 (binade x) \<le> x"
  using binade_lower_ge1 binade_lower_lt1 by (cases "1 \<le> x") auto

lemma ulp_pos: "0 < ulp x"
  by (simp add: ulp_def pow2_pos)

lemma ulp_le:
  assumes "0 < x"
  shows "ulp x \<le> max (x * pow2 (- 52)) (pow2 (- 1074))"
proof (cases "- 1022 \<le> binade x")
  case True
  have "ulp x = pow2 (binade x - 52)"
    using True assms by (simp add: ulp_def max_def)
  also have "\<dots> = pow2 (binade x) * pow2 (- 52)"
    unfolding pow2_power_int by (simp add: power_int_diff)
  also have "\<dots> \<le> x * pow2 (- 52)"
    using binade_lower [OF assms] pow2_pos [of "- 52"] by simp
  finally show ?thesis by simp
next
  case False
  then have "ulp x = pow2 (- 1074)"
    using assms by (simp add: ulp_def max_def)
  then show ?thesis by simp
qed

lemma to_double_error: "\<bar>to_double x - x\<bar> \<le> ulp x / 2"
proof (cases "x = 0")
  case True
  then show ?thesis using ulp_pos [of 0] by (simp add: to_double_def)
next
  case False
  define u where "u = ulp x"
  have u: "0 < u" by (simp add: u_def ulp_pos)
  have "to_double x - x = (of_int (round_half_even (x / u)) - x / u) * u"
    using False u by (simp add: to_double_def u_def field_simps)
  then have "\<bar>to_double x - x\<bar> = \<bar>of_int (round_half_even (x / u)) - x / u\<bar> * u"
    using u by (simp add: abs_mult)
  also have "\<dots> \<le> (1 / 2) * u"
    using round_half_even_error [of "x / u"] u by (intro mult_right_mono) auto
  finally show ?thesis by (simp add: u_def)
qed

lemma to_double_of_int:
  assumes "0 < c" "c < 2 ^ 53"
  shows "to_double (of_int c) = of_int c"
proof -
  define x :: rat where "x = of_int c"
  have x: "0 < x" "x < 2 ^ 53" using assms by (simp_all add: x_def)
  define k where "k = max (binade x) (- 1022) - 52"
  have "(2::rat) powi binade x \<le> x"
    using binade_lower [OF x(1)] by (simp add: pow2_power_int)
  also have "x < 2 powi 53" using x by simp
  finally have "binade x < 53"
    by (rule power_int_le_imp_less_exp [rotated]) simp_all
  then have k: "k \<le> 0" by (simp add: k_def)
  have u: "ulp x = 1 / 2 ^ nat (- k)"
    using k x by (cases "k = 0") (simp_all add: ulp_def pow2_def k_def [symmetric])
  have "x / ulp x = of_int (c * 2 ^ nat (- k))"
    by (simp only: u) (simp add: x_def)
  then have "round_half_even (x / ulp x) = c * 2 ^ nat (- k)"
    by (simp only: round_half_even_of_int)
  then have "to_double x = of_int (c * 2 ^ nat (- k)) * (1 / 2 ^ nat (- k))"
    using x by (simp add: to_double_def u)
  then show ?thesis by (simp add: x_def)
qed


lemma ceiling_to_double_div_1000:
  assumes "0 < a" "a \<le> 2 ^ 52"
  shows "\<lceil>to_double (of_int a / 1000)\<rceil> = \<lceil>rat_of_int a / 1000\<rceil>"
proof (cases "a mod 1000 = 0")
  case True
  then obtain c where c: "a = 1000 * c" by auto
  with assms have "0 < c" "c < 2 ^ 53" by simp_all
  then have "to_double (of_int c) = of_int c" by (rule to_double_of_int)
  then show ?thesis by (simp add: c)
next
  case False
  define q where "q = a div 1000"
  define r where "r = a mod 1000"
  have r: "1 \<le> r" "r \<le> 999" using False by (simp_all add: r_def) 
  have a: "a = 1000 * q + r" by (simp add: q_def r_def)
  define x :: rat where "x = of_int a / 1000"
  have xq: "x = of_int q + of_int r / 1000" by (simp add: x_def a)
  have lo: "of_int q + 1 / 1000 \<le> x" and hi: "x \<le> of_int q + 999 / 1000"
    using r by (simp_all add: xq)
  have x: "0 < x" "x \<le> 2 ^ 52 / 1000" using assms by (simp_all add: x_def)
  have "ulp x \<le> max (x * pow2 (- 52)) (pow2 (- 1074))" using x(1) by (rule ulp_le)
  also have "\<dots> \<le> 1 / 1000"
    using x(2) by (simp add: pow2_def)
  finally have "\<bar>to_double x - x\<bar> \<le> 1 / 2000"
    using to_double_error [of x] by simp
  then have "of_int q < to_double x" "to_double x \<le> of_int q + 1"
    using lo hi by linarith+
  then have "\<lceil>to_double x\<rceil> = q + 1" by (intro ceiling_unique) simp_all
  moreover have "\<lceil>x\<rceil> = q + 1" using lo hi by (intro ceiling_unique) simp_all
  ultimately show ?thesis by (simp add: x_def)
qed

lemma retryAfter_exact:
  assumes "0 < t + windowMs - now" "t + windowMs - now \<le> 2 ^ 52"
  shows "retryAfter (t # ts) windowMs now = Num (of_int \<lceil>rat_of_int (t + windowMs - now) / 1000\<rceil>)"
  using ceiling_to_double_div_1000 [OF assms] by (simp add: retryAfter_def)

section \<open>The gates\<close>

subsection \<open>Rate limit\<close>

lemma userRateLimit_reject:
  assumes "toString (u_id req_user) = Some userId"
    and "recent = filter (\<lambda>timestamp. now - windowMs < timestamp)
           (case userRequests userId of Some h \<Rightarrow> h | None \<Rightarrow> [])"
    and "maxRequests \<le> int (length recent)"
  shows "userRateLimit maxRequests windowMs userRequests req_user now =
      (userRequests,
       Respond \<lparr>status = 429, message = ''Too many requests. Please try again later.'',
          code = ''RATE_LIMIT_EXCEEDED'',
          extra = RetryAfter (retryAfter recent windowMs now)\<rparr>)"
  using assms by (simp add: userRateLimit_def Let_def)

lemma userRateLimit_admit:
  assumes "toString (u_id req_user) = Some userId"
    and "recent = filter (\<lambda>timestamp. now - windowMs < timestamp)
           (case userRequests userId of Some h \<Rightarrow> h | None \<Rightarrow> [])"
    and "int (length recent) < maxRequests"
  shows "userRateLimit maxRequests windowMs userRequests req_user now =
      (userRequests(userId \<mapsto> recent @ [now]), Next ())"
  using assms by (simp add: userRateLimit_def Let_def)

lemma retained_oldest_exact:
  assumes "filter (\<lambda>timestamp. now - windowMs < timestamp) history = oldest # rest"
    and "oldest + windowMs - now \<le> 2 ^ 52"
  shows "retryAfter (oldest # rest) windowMs now =
           Num (of_int \<lceil>rat_of_int (oldest + windowMs - now) / 1000\<rceil>)"
proof -
  have "oldest \<in> set (filter (\<lambda>timestamp. now - windowMs < timestamp) history)"
    by (simp add: assms(1))
  then have "0 < oldest + windowMs - now" by simp
  then show ?thesis using assms(2) by (rule retryAfter_exact)
qed

lemma four_requests_then_one:
  assumes uid: "toString (u_id req_user) = Some userId"
    and fresh: "userRequests userId = None"
    and ord: "t1 \<le> t2" "t2 \<le> t3" "t3 \<le> t4" "t4 \<le> t1 + 10000" "t4 + 60000 \<le> t5"
  shows "requests 3 60000 userRequests req_user [t1, t2, t3, t4, t5] =
     [Next (), Next (), Next (),
      Respond \<lparr>status = 429, message = ''Too many requests. Please try again later.'',
          code = ''RATE_LIMIT_EXCEEDED'',
          extra = RetryAfter (retryAfter [t1, t2, t3] 60000 t4)\<rparr>,
      Next ()]"
proof -
  let ?s1 = "userRequests(userId \<mapsto> [t1])"
  let ?s2 = "userRequests(userId \<mapsto> [t1, t2])"
  let ?s3 = "userRequests(userId \<mapsto> [t1, t2, t3])"
  let ?s5 = "userRequests(userId \<mapsto> [t5])"
  have 1: "userRateLimit 3 60000 userRequests req_user t1 = (?s1, Next ())"
    using userRateLimit_admit [OF uid refl, where windowMs = 60000 and now = t1
        and userRequests = userRequests and maxRequests = 3] fresh
    by simp
  have 2: "userRateLimit 3 60000 ?s1 req_user t2 = (?s2, Next ())"
    using userRateLimit_admit [OF uid refl, where windowMs = 60000 and now = t2
        and userRequests = "?s1" and maxRequests = 3] ord
    by simp
  have 3: "userRateLimit 3 60000 ?s2 req_user t3 = (?s3, Next ())"
    using userRateLimit_admit [OF uid refl, where windowMs = 60000 and now = t3
        and userRequests = "?s2" and maxRequests = 3] ord
    by simp
  have 4: "userRateLimit 3 60000 ?s3 req_user t4 = (?s3,
      Respond \<lparr>status = 429, message = ''Too many requests. Please try again later.'',
          code = ''RATE_LIMIT_EXCEEDED'',
          extra = RetryAfter (retryAfter [t1, t2, t3] 60000 t4)\<rparr>)"
    using userRateLimit_reject [OF uid refl, where windowMs = 60000 and now = t4
        and userRequests = "?s3" and maxRequests = 3] ord
    by simp
  have 5: "userRateLimit 3 60000 ?s3 req_user t5 = (?s5, Next ())"
    using userRateLimit_admit [OF uid refl, where windowMs = 60000 and now = t5
        and userRequests = "?s3" and maxRequests = 3] ord
    by simp
  show ?thesis
    by (simp add: 1 2 3 4 5)
qed

lemma ascending_later:
  "ascending_until earlier window \<Longrightarrow> earlier \<le> now \<Longrightarrow> ascending_until now window"
  by (auto simp: ascending_until_def list_all_iff)

text \<open>
  A check at a reading not before the last one keeps the stored window ascending: the
  retained timestamps stay in their order and \<open>now\<close> is appended behind them.
\<close>

lemma ascending_kept:
  assumes uid: "toString (u_id req_user) = Some userId"
    and asc: "ascending_until earlier (stored_window userRequests userId)"
    and le: "earlier \<le> now"
  shows "ascending_until now
           (stored_window (fst (userRateLimit maxRequests windowMs userRequests req_user now))
              userId)"
proof -
  have a: "ascending_until now (stored_window userRequests userId)"
    using asc le by (rule ascending_later)
  then have "ascending_until now
      (filter (\<lambda>timestamp. now - windowMs < timestamp) (stored_window userRequests userId) @
       [now])"
    by (auto simp: ascending_until_def list_all_iff sorted_append sorted_wrt_filter)
  with a show ?thesis
    using uid by (simp add: userRateLimit_def Let_def stored_window_def)
qed

lemma ascending_kept_run:
  assumes uid: "toString (u_id req_user) = Some userId"
  shows "ascending_until earlier (stored_window userRequests userId) \<Longrightarrow>
         sorted (earlier # nows) \<Longrightarrow>
         ascending_until (last (earlier # nows))
           (stored_window (store_after maxRequests windowMs userRequests req_user nows) userId)"
proof (induction nows arbitrary: userRequests earlier)
  case Nil
  then show ?case by simp
next
  case (Cons now nows)
  have "ascending_until now
      (stored_window (fst (userRateLimit maxRequests windowMs userRequests req_user now)) userId)"
    using ascending_kept [OF uid Cons.prems(1)] Cons.prems(2) by simp
  moreover have "sorted (now # nows)" using Cons.prems(2) by simp
  ultimately show ?case
    using Cons.IH by simp
qed

text \<open>In an ascending window the first retained timestamp is the oldest retained one.\<close>

lemma first_is_oldest:
  assumes "sorted window"
    and "filter keep window = first # rest"
  shows "first = Min (set (filter keep window))"
proof -
  have "sorted (filter keep window)" using assms(1) by (rule sorted_wrt_filter)
  then have "sorted (first # rest)" by (simp add: assms(2))
  then have "Min (set (first # rest)) = first"
    by (intro Min_eqI) auto
  then show ?thesis by (simp add: assms(2))
qed

text \<open>
  The code reads \<open>recentRequests[0]\<close>, the first retained timestamp in the order of
  storing. Were the clock to run backwards between two requests, that is not the oldest
  one: after requests at 5000 and 1000 the window is stored as 5000, 1000, and a third
  request at 6000 under a limit of 2 per 60 s is told to retry after 59 s, where the
  oldest retained timestamp 1000 gives 55 s.
\<close>

lemma retryAfter_reads_first_stored:
  "store_after 2 60000 no_requests sample_user [5000, 1000] ''42'' = Some [5000, 1000] \<and>
   snd (userRateLimit 2 60000 out_of_order_requests sample_user 6000) =
     Respond \<lparr>status = 429, message = ''Too many requests. Please try again later.'',
       code = ''RATE_LIMIT_EXCEEDED'', extra = RetryAfter (Num 59)\<rparr> \<and>
   Min (set [5000, 1000 :: int]) = 1000 \<and>
   \<lceil>rat_of_int (1000 + 60000 - 6000) / 1000\<rceil> = 55"
proof -
  have r: "retryAfter [5000, 1000] 60000 6000 = Num 59"
    using retryAfter_exact [of 5000 60000 6000 "[1000]"] by simp
  show ?thesis
    by (simp add: userRateLimit_def sample_user_def safe_integer_inverse no_requests_def
        out_of_order_requests_def Let_def r fun_eq_iff)
qed

text \<open>
  So after any run of checks at non-decreasing readings, begun with no window stored for
  the user, a rejected check answers with the time until the oldest retained timestamp
  leaves the window.
\<close>

lemma oldest_after_ascending_run:
  assumes uid: "toString (u_id req_user) = Some userId"
    and fresh: "stored_window userRequests userId = []"
    and ord: "sorted (nows @ [now])"
  shows "(let after_run = store_after maxRequests windowMs userRequests req_user nows;
              recent = filter (\<lambda>timestamp. now - windowMs < timestamp)
                         (stored_window after_run userId)
          in maxRequests \<le> int (length recent) \<and> recent \<noteq> [] \<and>
             Min (set recent) + windowMs - now \<le> 2 ^ 52 \<longrightarrow>
               userRateLimit maxRequests windowMs after_run req_user now =
                 (after_run,
                  Respond \<lparr>status = 429,
                    message = ''Too many requests. Please try again later.'',
                    code = ''RATE_LIMIT_EXCEEDED'',
                    extra = RetryAfter
                      (Num (of_int \<lceil>rat_of_int (Min (set recent) + windowMs - now) / 1000\<rceil>))\<rparr>))"
proof -
  define after_run where "after_run = store_after maxRequests windowMs userRequests req_user nows"
  define recent where "recent = filter (\<lambda>timestamp. now - windowMs < timestamp)
    (stored_window after_run userId)"
  have recent: "recent = filter (\<lambda>timestamp. now - windowMs < timestamp)
    (case after_run userId of Some h \<Rightarrow> h | None \<Rightarrow> [])"
    by (simp add: recent_def stored_window_def)
  have sorted_after: "sorted (stored_window after_run userId)"
  proof (cases nows)
    case Nil
    then show ?thesis by (simp add: after_run_def fresh)
  next
    case (Cons first_now later)
    have "ascending_until first_now (stored_window userRequests userId)"
      by (simp add: fresh ascending_until_def)
    moreover have "sorted (first_now # nows)"
      using ord Cons by (simp add: sorted_append)
    ultimately have "ascending_until (last (first_now # nows)) (stored_window after_run userId)"
      unfolding after_run_def by (rule ascending_kept_run [OF uid])
    then show ?thesis by (simp add: ascending_until_def)
  qed
  have "userRateLimit maxRequests windowMs after_run req_user now =
      (after_run,
       Respond \<lparr>status = 429, message = ''Too many requests. Please try again later.'',
         code = ''RATE_LIMIT_EXCEEDED'',
         extra = RetryAfter
           (Num (of_int \<lceil>rat_of_int (Min (set recent) + windowMs - now) / 1000\<rceil>))\<rparr>)"
    if full: "maxRequests \<le> int (length recent)" and ne: "recent \<noteq> []"
      and le: "Min (set recent) + windowMs - now \<le> 2 ^ 52"
  proof -
    from ne obtain first rest where fr: "recent = first # rest"
      by (cases recent) auto
    have fr': "filter (\<lambda>timestamp. now - windowMs < timestamp)
        (stored_window after_run userId) = first # rest"
      using fr unfolding recent_def .
    have m: "Min (set recent) = first"
      using first_is_oldest [OF sorted_after fr'] unfolding recent_def by (rule sym)
    have le': "first + windowMs - now \<le> 2 ^ 52"
      using le unfolding m .
    have "retryAfter (first # rest) windowMs now =
        Num (of_int \<lceil>rat_of_int (first + windowMs - now) / 1000\<rceil>)"
      using fr' le' by (rule retained_oldest_exact)
    then have "retryAfter recent windowMs now =
        Num (of_int \<lceil>rat_of_int (Min (set recent) + windowMs - now) / 1000\<rceil>)"
      unfolding m unfolding fr .
    then show ?thesis
      using userRateLimit_reject [where recent = recent and now = now and windowMs = windowMs
        and userRequests = after_run and maxRequests = maxRequests, OF uid recent full]
      by (simp only:)
  qed
  then show ?thesis
    unfolding Let_def after_run_def [symmetric] recent_def [symmetric] by blast
qed

text \<open>
  Claim C1, as the code has it. A check for a user whose id prints as \<open>userId\<close> keeps
  the stored timestamps that are strictly newer than \<open>now - windowMs\<close>; a timestamp
  of exactly that age is dropped with the older ones. If at least \<open>maxRequests\<close> remain,
  the check fails with status 429 and code \<open>RATE_LIMIT_EXCEEDED\<close>, the map is as it
  was, and \<open>retryAfter\<close> is the ceiling of (first retained + window - now) / 1000
  (exactly so while that time is below \<open>2\<^sup>5\<^sup>2\<close> ms). Otherwise \<open>now\<close> is appended to
  the retained timestamps, the list is stored under the user id and the request
  proceeds. While the clock readings of the checks never decrease, the gate keeps the
  stored window ascending, over one check and over any run of checks, and in an
  ascending window the first retained timestamp is the oldest retained one, the least:
  \<open>retryAfter\<close> is then the ceiling of (oldest retained + window - now) / 1000, in
  particular in a check rejected after any run of checks at non-decreasing readings. With 3
  requests per 60 s, of four requests of a fresh user within 10 s the first three
  proceed and the fourth is rejected, and a fifth one 60 s or more after the fourth
  proceeds.
\<close>

theorem userRateLimit_sliding_window:
  assumes "toString (u_id req_user) = Some userId"
  shows
    "(let recent = filter (\<lambda>timestamp. now - windowMs < timestamp)
                     (stored_window userRequests userId)
      in (maxRequests \<le> int (length recent) \<longrightarrow>
            userRateLimit maxRequests windowMs userRequests req_user now =
              (userRequests,
               Respond \<lparr>status = 429,
                 message = ''Too many requests. Please try again later.'',
                 code = ''RATE_LIMIT_EXCEEDED'',
                 extra = RetryAfter (retryAfter recent windowMs now)\<rparr>) \<and>
            (\<forall>first rest. recent = first # rest \<and> first + windowMs - now \<le> 2 ^ 52 \<longrightarrow>
               retryAfter recent windowMs now =
                 Num (of_int \<lceil>rat_of_int (first + windowMs - now) / 1000\<rceil>)) \<and>
            (sorted (stored_window userRequests userId) \<and> recent \<noteq> [] \<and>
             Min (set recent) + windowMs - now \<le> 2 ^ 52 \<longrightarrow>
               retryAfter recent windowMs now =
                 Num (of_int \<lceil>rat_of_int (Min (set recent) + windowMs - now) / 1000\<rceil>))) \<and>
         (int (length recent) < maxRequests \<longrightarrow>
            userRateLimit maxRequests windowMs userRequests req_user now =
              (userRequests(userId \<mapsto> recent @ [now]), Next ()))) \<and>
     (ascending_until earlier (stored_window userRequests userId) \<and> earlier \<le> now \<longrightarrow>
        ascending_until now
          (stored_window (fst (userRateLimit maxRequests windowMs userRequests req_user now))
             userId)) \<and>
     (ascending_until earlier (stored_window userRequests userId) \<and> sorted (earlier # nows) \<longrightarrow>
        ascending_until (last (earlier # nows))
          (stored_window (store_after maxRequests windowMs userRequests req_user nows) userId)) \<and>
     (stored_window userRequests userId = [] \<and> sorted (nows @ [now]) \<longrightarrow>
        (let after_run = store_after maxRequests windowMs userRequests req_user nows;
             recent = filter (\<lambda>timestamp. now - windowMs < timestamp)
                        (stored_window after_run userId)
         in maxRequests \<le> int (length recent) \<and> recent \<noteq> [] \<and>
            Min (set recent) + windowMs - now \<le> 2 ^ 52 \<longrightarrow>
              userRateLimit maxRequests windowMs after_run req_user now =
                (after_run,
                 Respond \<lparr>status = 429,
                   message = ''Too many requests. Please try again later.'',
                   code = ''RATE_LIMIT_EXCEEDED'',
                   extra = RetryAfter
                     (Num (of_int
                       \<lceil>rat_of_int (Min (set recent) + windowMs - now) / 1000\<rceil>))\<rparr>))) \<and>
     (userRequests userId = None \<and> t1 \<le> t2 \<and> t2 \<le> t3 \<and> t3 \<le> t4 \<and>
      t4 \<le> t1 + 10000 \<and> t4 + 60000 \<le> t5 \<longrightarrow>
        requests 3 60000 userRequests req_user [t1, t2, t3, t4, t5] =
          [Next (), Next (), Next (),
           Respond \<lparr>status = 429,
             message = ''Too many requests. Please try again later.'',
             code = ''RATE_LIMIT_EXCEEDED'',
             extra = RetryAfter (retryAfter [t1, t2, t3] 60000 t4)\<rparr>,
           Next ()])"
proof -
  define recent where "recent = filter (\<lambda>timestamp. now - windowMs < timestamp)
    (stored_window userRequests userId)"
  have recent: "recent = filter (\<lambda>timestamp. now - windowMs < timestamp)
    (case userRequests userId of Some h \<Rightarrow> h | None \<Rightarrow> [])"
    by (simp add: recent_def stored_window_def)
  have a: "maxRequests \<le> int (length recent) \<Longrightarrow>
      userRateLimit maxRequests windowMs userRequests req_user now =
        (userRequests,
         Respond \<lparr>status = 429, message = ''Too many requests. Please try again later.'',
           code = ''RATE_LIMIT_EXCEEDED'',
           extra = RetryAfter (retryAfter recent windowMs now)\<rparr>)"
    using userRateLimit_reject [where recent = recent and now = now and windowMs = windowMs
        and userRequests = userRequests and maxRequests = maxRequests, OF assms recent] .
  have b: "recent = first # rest \<Longrightarrow> first + windowMs - now \<le> 2 ^ 52 \<Longrightarrow>
      retryAfter recent windowMs now =
        Num (of_int \<lceil>rat_of_int (first + windowMs - now) / 1000\<rceil>)" for first rest
    using retained_oldest_exact [of now windowMs _ first rest] unfolding recent_def by simp
  have b': "retryAfter recent windowMs now =
        Num (of_int \<lceil>rat_of_int (Min (set recent) + windowMs - now) / 1000\<rceil>)"
    if s: "sorted (stored_window userRequests userId)" and ne: "recent \<noteq> []"
      and le: "Min (set recent) + windowMs - now \<le> 2 ^ 52"
  proof -
    from ne obtain first rest where fr: "recent = first # rest"
      by (cases recent) auto
    have "first = Min (set recent)"
      using first_is_oldest [OF s, of "\<lambda>timestamp. now - windowMs < timestamp" first rest] fr
      unfolding recent_def by simp
    with b [OF fr] le show ?thesis by simp
  qed
  have c: "int (length recent) < maxRequests \<Longrightarrow>
      userRateLimit maxRequests windowMs userRequests req_user now =
        (userRequests(userId \<mapsto> recent @ [now]), Next ())"
    using userRateLimit_admit [where recent = recent and now = now and windowMs = windowMs
        and userRequests = userRequests and maxRequests = maxRequests, OF assms recent] .
  have d: "userRequests userId = None \<and> t1 \<le> t2 \<and> t2 \<le> t3 \<and> t3 \<le> t4 \<and>
      t4 \<le> t1 + 10000 \<and> t4 + 60000 \<le> t5 \<longrightarrow>
        requests 3 60000 userRequests req_user [t1, t2, t3, t4, t5] =
          [Next (), Next (), Next (),
           Respond \<lparr>status = 429,
             message = ''Too many requests. Please try again later.'',
             code = ''RATE_LIMIT_EXCEEDED'',
             extra = RetryAfter (retryAfter [t1, t2, t3] 60000 t4)\<rparr>,
           Next ()]"
    using four_requests_then_one [OF assms] by blast
  have e: "ascending_until earlier (stored_window userRequests userId) \<and> earlier \<le> now \<longrightarrow>
        ascending_until now
          (stored_window (fst (userRateLimit maxRequests windowMs userRequests req_user now))
             userId)"
    using ascending_kept [OF assms] by blast
  have f: "ascending_until earlier (stored_window userRequests userId) \<and>
      sorted (earlier # nows) \<longrightarrow>
        ascending_until (last (earlier # nows))
          (stored_window (store_after maxRequests windowMs userRequests req_user nows) userId)"
    using ascending_kept_run [OF assms] by blast
  have step: "(maxRequests \<le> int (length recent) \<longrightarrow>
            userRateLimit maxRequests windowMs userRequests req_user now =
              (userRequests,
               Respond \<lparr>status = 429,
                 message = ''Too many requests. Please try again later.'',
                 code = ''RATE_LIMIT_EXCEEDED'',
                 extra = RetryAfter (retryAfter recent windowMs now)\<rparr>) \<and>
            (\<forall>first rest. recent = first # rest \<and> first + windowMs - now \<le> 2 ^ 52 \<longrightarrow>
               retryAfter recent windowMs now =
                 Num (of_int \<lceil>rat_of_int (first + windowMs - now) / 1000\<rceil>)) \<and>
            (sorted (stored_window userRequests userId) \<and> recent \<noteq> [] \<and>
             Min (set recent) + windowMs - now \<le> 2 ^ 52 \<longrightarrow>
               retryAfter recent windowMs now =
                 Num (of_int \<lceil>rat_of_int (Min (set recent) + windowMs - now) / 1000\<rceil>))) \<and>
         (int (length recent) < maxRequests \<longrightarrow>
            userRateLimit maxRequests windowMs userRequests req_user now =
              (userRequests(userId \<mapsto> recent @ [now]), Next ()))"
    using a b b' c by blast
  have g: "stored_window userRequests userId = [] \<and> sorted (nows @ [now]) \<longrightarrow>
        (let after_run = store_after maxRequests windowMs userRequests req_user nows;
             recent = filter (\<lambda>timestamp. now - windowMs < timestamp)
                        (stored_window after_run userId)
         in maxRequests \<le> int (length recent) \<and> recent \<noteq> [] \<and>
            Min (set recent) + windowMs - now \<le> 2 ^ 52 \<longrightarrow>
              userRateLimit maxRequests windowMs after_run req_user now =
                (after_run,
                 Respond \<lparr>status = 429,
                   message = ''Too many requests. Please try again later.'',
                   code = ''RATE_LIMIT_EXCEEDED'',
                   extra = RetryAfter
                     (Num (of_int
                       \<lceil>rat_of_int (Min (set recent) + windowMs - now) / 1000\<rceil>))\<rparr>))"
    using oldest_after_ascending_run [OF assms] by blast
  have step': "let recent = filter (\<lambda>timestamp. now - windowMs < timestamp)
                     (stored_window userRequests userId)
      in (maxRequests \<le> int (length recent) \<longrightarrow>
            userRateLimit maxRequests windowMs userRequests req_user now =
              (userRequests,
               Respond \<lparr>status = 429,
                 message = ''Too many requests. Please try again later.'',
                 code = ''RATE_LIMIT_EXCEEDED'',
                 extra = RetryAfter (retryAfter recent windowMs now)\<rparr>) \<and>
            (\<forall>first rest. recent = first # rest \<and> first + windowMs - now \<le> 2 ^ 52 \<longrightarrow>
               retryAfter recent windowMs now =
                 Num (of_int \<lceil>rat_of_int (first + windowMs - now) / 1000\<rceil>)) \<and>
            (sorted (stored_window userRequests userId) \<and> recent \<noteq> [] \<and>
             Min (set recent) + windowMs - now \<le> 2 ^ 52 \<longrightarrow>
               retryAfter recent windowMs now =
                 Num (of_int \<lceil>rat_of_int (Min (set recent) + windowMs - now) / 1000\<rceil>))) \<and>
         (int (length recent) < maxRequests \<longrightarrow>
            userRateLimit maxRequests windowMs userRequests req_user now =
              (userRequests(userId \<mapsto> recent @ [now]), Next ()))"
    using step unfolding Let_def recent_def [symmetric] .
  show ?thesis
    by (rule conjI [OF step' conjI [OF e conjI [OF f conjI [OF g d]]]])
qed

theorem userRateLimit_sliding_window_witness:
  "toString (u_id sample_user) = Some ''42'' \<and>
   userRateLimit 3 60000 three_recent_requests sample_user 4000 =
     (three_recent_requests,
      Respond \<lparr>status = 429, message = ''Too many requests. Please try again later.'',
        code = ''RATE_LIMIT_EXCEEDED'', extra = RetryAfter (Num 57)\<rparr>) \<and>
   sorted (stored_window three_recent_requests ''42'') \<and>
   Min (set [1000, 2000, 3000 :: int]) = 1000 \<and>
   retryAfter [1000, 2000, 3000] 60000 4000 =
     Num (of_int \<lceil>rat_of_int (1000 + 60000 - 4000) / 1000\<rceil>) \<and>
   ascending_until 3000 (stored_window three_recent_requests ''42'') \<and>
   ascending_until 4000
     (stored_window (fst (userRateLimit 3 60000 three_recent_requests sample_user 4000)) ''42'') \<and>
   ascending_until 4000
     (stored_window (store_after 3 60000 no_requests sample_user [1000, 2000, 3000, 4000])
        ''42'') \<and>
   stored_window no_requests ''42'' = [] \<and> sorted ([1000, 2000, 3000] @ [4000 :: int]) \<and>
   userRateLimit 3 60000 (store_after 3 60000 no_requests sample_user [1000, 2000, 3000])
       sample_user 4000 =
     (store_after 3 60000 no_requests sample_user [1000, 2000, 3000],
      Respond \<lparr>status = 429, message = ''Too many requests. Please try again later.'',
        code = ''RATE_LIMIT_EXCEEDED'', extra = RetryAfter (Num 57)\<rparr>) \<and>
   userRateLimit 3 60000 no_requests sample_user 1000 =
     (no_requests(''42'' \<mapsto> [1000]), Next ()) \<and>
   requests 3 60000 no_requests sample_user [1000, 2000, 3000, 4000, 64000] =
     [Next (), Next (), Next (),
      Respond \<lparr>status = 429, message = ''Too many requests. Please try again later.'',
        code = ''RATE_LIMIT_EXCEEDED'', extra = RetryAfter (Num 57)\<rparr>,
      Next ()]"
proof -
  have uid: "toString (u_id sample_user) = Some ''42''"
    by (simp add: sample_user_def safe_integer_inverse)
  have w: "stored_window three_recent_requests ''42'' = [1000, 2000, 3000]"
    "stored_window no_requests ''42'' = []"
    by (simp_all add: stored_window_def three_recent_requests_def no_requests_def)
  have m: "Min (set [1000, 2000, 3000 :: int]) = 1000" by simp
  have asc: "ascending_until 3000 (stored_window three_recent_requests ''42'')"
    "ascending_until 1000 (stored_window no_requests ''42'')"
    by (simp_all add: w ascending_until_def)
  have r: "retryAfter [1000, 2000, 3000] 60000 4000 = Num 57"
    using m userRateLimit_sliding_window [OF uid, where userRequests = three_recent_requests
        and now = 4000 and windowMs = 60000 and maxRequests = 3]
    by (simp add: w Let_def)
  have rejected: "userRateLimit 3 60000 three_recent_requests sample_user 4000 =
     (three_recent_requests,
      Respond \<lparr>status = 429, message = ''Too many requests. Please try again later.'',
        code = ''RATE_LIMIT_EXCEEDED'', extra = RetryAfter (Num 57)\<rparr>)"
    using r userRateLimit_sliding_window [OF uid, where userRequests = three_recent_requests
        and now = 4000 and windowMs = 60000 and maxRequests = 3]
    by (simp add: w Let_def)
  have kept: "ascending_until 4000
     (stored_window (fst (userRateLimit 3 60000 three_recent_requests sample_user 4000)) ''42'')"
    using asc(1) userRateLimit_sliding_window [OF uid, where userRequests = three_recent_requests
        and now = 4000 and windowMs = 60000 and maxRequests = 3 and earlier = 3000]
    by simp
  have kept_run: "ascending_until 4000
     (stored_window (store_after 3 60000 no_requests sample_user [1000, 2000, 3000, 4000])
        ''42'')"
    using asc(2) userRateLimit_sliding_window [OF uid, where userRequests = no_requests
        and windowMs = 60000 and maxRequests = 3 and earlier = 1000
        and nows = "[1000, 2000, 3000, 4000]"]
    by (simp del: store_after.simps)
  have sw: "stored_window (store_after 3 60000 no_requests sample_user [1000, 2000, 3000])
      ''42'' = [1000, 2000, 3000]"
    by (simp add: userRateLimit_def sample_user_def safe_integer_inverse no_requests_def
        stored_window_def Let_def)
  have after_run: "userRateLimit 3 60000
       (store_after 3 60000 no_requests sample_user [1000, 2000, 3000]) sample_user 4000 =
     (store_after 3 60000 no_requests sample_user [1000, 2000, 3000],
      Respond \<lparr>status = 429, message = ''Too many requests. Please try again later.'',
        code = ''RATE_LIMIT_EXCEEDED'', extra = RetryAfter (Num 57)\<rparr>)"
  proof -
    have pre: "stored_window no_requests ''42'' = [] \<and> sorted ([1000, 2000, 3000] @ [4000 :: int])"
      by (simp add: w)
    have kept_all: "filter (\<lambda>timestamp. 4000 - 60000 < timestamp) [1000, 2000, 3000 :: int] =
        [1000, 2000, 3000]"
      by simp
    from userRateLimit_sliding_window [OF uid, where userRequests = no_requests
        and now = 4000 and windowMs = 60000 and maxRequests = 3
        and nows = "[1000, 2000, 3000]", THEN conjunct2, THEN conjunct2, THEN conjunct2,
        THEN conjunct1, THEN mp, OF pre]
    show ?thesis
      unfolding Let_def sw kept_all m by simp
  qed
  have admitted: "userRateLimit 3 60000 no_requests sample_user 1000 =
     (no_requests(''42'' \<mapsto> [1000]), Next ())"
    using userRateLimit_sliding_window [OF uid, where userRequests = no_requests
        and now = 1000 and windowMs = 60000 and maxRequests = 3]
    by (simp add: w Let_def)
  have run: "requests 3 60000 no_requests sample_user [1000, 2000, 3000, 4000, 64000] =
     [Next (), Next (), Next (),
      Respond \<lparr>status = 429, message = ''Too many requests. Please try again later.'',
        code = ''RATE_LIMIT_EXCEEDED'', extra = RetryAfter (Num 57)\<rparr>,
      Next ()]"
    using r userRateLimit_sliding_window [OF uid, where userRequests = no_requests
        and ?t1.0 = 1000 and ?t2.0 = 2000 and ?t3.0 = 3000 and ?t4.0 = 4000 and ?t5.0 = 64000]
    by (simp add: no_requests_def del: requests.simps)
  from uid rejected m r asc(1) kept kept_run admitted run w after_run show ?thesis
    by (simp del: requests.simps store_after.simps)
qed

text \<open>
  Claim C1 as worded has the gate discard the timestamps older than
  \<open>now - windowDuration\<close> and count the rest. With one request allowed per 60 s and a
  request stored at time 0, the request at time 60000 finds that timestamp not older
  than \<open>now - windowDuration = 0\<close>, so one timestamp would remain and the request
  would be rejected; the code drops the timestamp and lets the request pass.
\<close>

theorem userRateLimit_boundary_counterexample:
  "1 \<le> int (length (remaining_as_specified 60000 60000 [0])) \<and>
   userRateLimit 1 60000 one_old_request sample_user 60000 =
     (one_old_request(''42'' \<mapsto> [60000]), Next ())"
  by (simp add: remaining_as_specified_def userRateLimit_def one_old_request_def
      sample_user_def safe_integer_inverse Let_def)

text \<open>
  Claim C10. A check that does not end in \<open>next()\<close>, so every check that fails with
  \<open>RATE_LIMIT_EXCEEDED\<close>, returns the map of stored windows exactly as it got it:
  neither the pruned list nor the time of the rejected request is written.
\<close>

theorem userRateLimit_rejection_keeps_store:
  assumes "userRateLimit maxRequests windowMs userRequests req_user now = (userRequests', out)"
    and "out \<noteq> Next ()"
  shows "userRequests' = userRequests"
  using assms
  by (auto simp: userRateLimit_def Let_def split: option.splits if_splits)

theorem userRateLimit_rejection_keeps_store_witness:
  "snd (userRateLimit 1 60000 one_old_request sample_user 1000) =
     Respond \<lparr>status = 429, message = ''Too many requests. Please try again later.'',
       code = ''RATE_LIMIT_EXCEEDED'', extra = RetryAfter (Num 59)\<rparr> \<and>
   fst (userRateLimit 1 60000 one_old_request sample_user 1000) = one_old_request"
proof -
  have r: "retryAfter [0] 60000 1000 = Num 59"
    using retryAfter_exact [of 0 60000 1000 "[]"] by simp
  have out: "snd (userRateLimit 1 60000 one_old_request sample_user 1000) =
     Respond \<lparr>status = 429, message = ''Too many requests. Please try again later.'',
       code = ''RATE_LIMIT_EXCEEDED'', extra = RetryAfter (Num 59)\<rparr>"
    by (simp add: userRateLimit_def sample_user_def safe_integer_inverse one_old_request_def
        Let_def r)
  then have "snd (userRateLimit 1 60000 one_old_request sample_user 1000) \<noteq> Next ()"
    by simp
  then have "fst (userRateLimit 1 60000 one_old_request sample_user 1000) = one_old_request"
    using userRateLimit_rejection_keeps_store [of 1 60000 one_old_request sample_user 1000]
    by (metis prod.collapse)
  with out show ?thesis by simp
qed

subsection \<open>Authentication\<close>



subsection \<open>Ownership\<close>

text \<open>
  Claim C5. With no resource object at all (neither \<open>req.resource\<close> nor a body) the
  gate fails with \<open>RESOURCE_NOT_FOUND\<close>. With a resource object whose ownership field
  and a principal whose id both have a string form, the gate proceeds exactly when the
  two strings are equal, and fails with \<open>ACCESS_DENIED\<close> when they differ. So a numeric
  id and the string of its decimal digits are the same owner, on either side.
\<close>

theorem checkResourceOwnership_decision:
  "(req_resource = None \<and> req_body = None \<longrightarrow>
      checkResourceOwnership resourceField req_resource req_body req_user =
        Respond \<lparr>status = 400, message = ''Resource not found'',
                 code = ''RESOURCE_NOT_FOUND'', extra = No_extra\<rparr>) \<and>
   ((case req_resource of Some r \<Rightarrow> Some r | None \<Rightarrow> req_body) = Some resource \<and>
    toString (resource resourceField) = Some a \<and> toString (u_id req_user) = Some b \<longrightarrow>
      (checkResourceOwnership resourceField req_resource req_body req_user = Next ()
         \<longleftrightarrow> a = b) \<and>
      (a \<noteq> b \<longrightarrow>
         checkResourceOwnership resourceField req_resource req_body req_user =
           Respond \<lparr>status = 403,
             message = ''Access denied. You can only access your own resources.'',
             code = ''ACCESS_DENIED'', extra = No_extra\<rparr>)) \<and>
   ((case req_resource of Some r \<Rightarrow> Some r | None \<Rightarrow> req_body) = Some resource \<and>
    toString (JNumber n) = Some digits \<and>
    (resource resourceField = JNumber n \<and> u_id req_user = JString digits \<or>
     resource resourceField = JString digits \<and> u_id req_user = JNumber n) \<longrightarrow>
      checkResourceOwnership resourceField req_resource req_body req_user = Next ())"
  by (auto simp: checkResourceOwnership_def simp del: decimal.simps toString.simps(3))

theorem checkResourceOwnership_decision_witness:
  "toString (own_resource ''userId'') = Some ''42'' \<and>
   toString (foreign_resource ''userId'') = Some ''43'' \<and>
   toString (u_id sample_user) = Some ''42'' \<and>
   own_resource ''userId'' = JString ''42'' \<and>
   u_id sample_user = JNumber (safe_integer 42) \<and>
   toString (JNumber (safe_integer 42)) = Some ''42'' \<and>
   checkResourceOwnership ''userId'' None (Some own_resource) sample_user = Next () \<and>
   checkResourceOwnership ''userId'' (Some foreign_resource) (Some own_resource) sample_user =
     Respond \<lparr>status = 403,
       message = ''Access denied. You can only access your own resources.'',
       code = ''ACCESS_DENIED'', extra = No_extra\<rparr> \<and>
   checkResourceOwnership ''userId'' None None sample_user =
     Respond \<lparr>status = 400, message = ''Resource not found'',
       code = ''RESOURCE_NOT_FOUND'', extra = No_extra\<rparr>"
proof -
  have a: "toString (own_resource ''userId'') = Some ''42''"
    by (simp add: own_resource_def)
  have a': "toString (foreign_resource ''userId'') = Some ''43''"
    by (simp add: foreign_resource_def)
  have b: "toString (u_id sample_user) = Some ''42''"
    by (simp add: sample_user_def safe_integer_inverse)
  have c: "own_resource ''userId'' = JString ''42''"
    "u_id sample_user = JNumber (safe_integer 42)"
    "toString (JNumber (safe_integer 42)) = Some ''42''"
    by (simp_all add: own_resource_def sample_user_def safe_integer_inverse)
  from a a' b c
    checkResourceOwnership_decision [of None "Some own_resource" "''userId''" sample_user
      own_resource "''42''" "''42''"]
    checkResourceOwnership_decision [of "Some foreign_resource" "Some own_resource" "''userId''"
      sample_user foreign_resource "''43''" "''42''"]
    checkResourceOwnership_decision [of None None "''userId''" sample_user]
  show ?thesis by simp
qed

text \<open>
  Claim C9. With a resource object present whose ownership field is undefined, the gate
  neither proceeds nor sends a response: the call of \<open>toString\<close> on the undefined
  value throws a TypeError.
\<close>

theorem checkResourceOwnership_missing_field_throws:
  assumes "(case req_resource of Some r \<Rightarrow> Some r | None \<Rightarrow> req_body) = Some resource"
    and "resource resourceField = JUndefined"
  shows "checkResourceOwnership resourceField req_resource req_body req_user =
           Throws ''TypeError'' \<and>
         checkResourceOwnership resourceField req_resource req_body req_user \<noteq> Next () \<and>
         (\<forall>r. checkResourceOwnership resourceField req_resource req_body req_user \<noteq> Respond r)"
  using assms by (simp add: checkResourceOwnership_def)

theorem checkResourceOwnership_missing_field_throws_witness:
  "own_resource ''ownerId'' = JUndefined \<and>
   checkResourceOwnership ''ownerId'' (Some own_resource) None sample_user =
     Throws ''TypeError''"
proof -
  have a: "(case Some own_resource of Some r \<Rightarrow> Some r | None \<Rightarrow> None) = Some own_resource"
    by simp
  have b: "own_resource ''ownerId'' = JUndefined"
    by (simp add: own_resource_def)
  from b checkResourceOwnership_missing_field_throws [OF a b, of sample_user]
  show ?thesis by simp
qed

subsection \<open>Subscription\<close>







text \<open>
  A plan string that is a name the table inherits does not occur in a stored user. Were
  one to reach the gate, the lookup \<open>subscriptionLevels[plan] || 1\<close> finds the
  inherited function, which is truthy, the default 1 is not taken, and the comparison
  with the required level is false: the gate proceeds.
\<close>

lemma requireSubscription_inherited_user_plan:
  "plan constructor_plan_user \<notin> set plan_enum \<and>
   ordinal (plan constructor_plan_user) < ordinal ''premium'' \<and>
   requireSubscription ''premium'' constructor_plan_user = Next ()"
  by (simp add: ordinal_def subscriptionLevels_def requireSubscription_def level_of_def
      constructor_plan_user_def object_prototype_keys_def plan_enum_def)

section \<open>Risk scoring\<close>

lemma tally_worst_case: "tally_factors worst_case initial_tally = Some worst_case_tally"
  by code_simp

lemma riskScore_worst_case:
  "js_div (Math_round (js_mul (averageRiskScore worst_case_tally) (Num 100))) (Num 100) =
     lit (76/100)"
  by code_simp

lemma level_worst_case:
  "riskLevel_of (averageRiskScore worst_case_tally) = (''high'', ''red'')"
  by code_simp

lemma recommendations_worst_case:
  "recommendations_of (averageRiskScore worst_case_tally) worst_case =
     [''Consider seeking experienced legal counsel'',
      ''Develop a comprehensive case strategy'',
      ''Allocate additional resources for case preparation'',
      ''Focus on gathering additional evidence'',
      ''Consider expert witnesses or testimony'',
      ''Prioritize critical deadlines'',
      ''Consider requesting extensions where possible'',
      ''Prepare for well-funded opposition'',
      ''Focus on strong legal arguments and precedents'']"
  by code_simp

lemma weights_worst_case:
  "recognized_weights worst_case = [8/10, 7/10, 7/10, 8/10, 8/10]"
  by code_simp

text \<open>
  Claim C6. For the factors \<open>case_complexity: high\<close>, \<open>evidence_strength: weak\<close>,
  \<open>opponent_resources: extensive\<close>, \<open>time_constraints: urgent\<close>,
  \<open>financial_impact: high\<close> the weights are 0.8, 0.7, 0.7, 0.8, 0.8 with mean 0.76, the
  assessment has \<open>riskScore\<close> 0.76 and \<open>riskLevel\<close> high, and its recommendations are
  the three of escalation, the two of evidence gathering, the two of deadline management
  and the two of preparation, in this order.
\<close>

theorem risk_assessment_worst_case:
  "recognized_weights worst_case = [8/10, 7/10, 7/10, 8/10, 8/10] \<and>
   mean (recognized_weights worst_case) = 76/100 \<and>
   risk_assessment (inp\<lparr>in_factors := worst_case\<rparr>) =
     Some \<lparr>a_id = decimal (in_clock_id inp), a_userId = in_userId inp,
           a_caseId = in_caseId inp, a_caseInfo = in_caseInfo inp,
           riskScore = lit (76/100), riskLevel = ''high'', riskColor = ''red'',
           a_factors = assessmentDetails worst_case_tally,
           a_additionalFactors = in_additionalFactors inp,
           a_description = in_description inp,
           recommendations =
             [''Consider seeking experienced legal counsel'',
              ''Develop a comprehensive case strategy'',
              ''Allocate additional resources for case preparation'',
              ''Focus on gathering additional evidence'',
              ''Consider expert witnesses or testimony'',
              ''Prioritize critical deadlines'',
              ''Consider requesting extensions where possible'',
              ''Prepare for well-funded opposition'',
              ''Focus on strong legal arguments and precedents''],
           createdAt = in_clock_created inp\<rparr>"
proof -
  have "mean (recognized_weights worst_case) = 76/100"
    by (simp add: weights_worst_case mean_def)
  then show ?thesis
    by (simp add: weights_worst_case risk_assessment_def tally_worst_case Let_def
        riskScore_worst_case level_worst_case recommendations_worst_case
        del: decimal.simps)
qed

lemma tally_boundary_case:
  "tally_factors boundary_case initial_tally = Some boundary_case_tally"
  by code_simp

lemma riskScore_boundary_case:
  "js_div (Math_round (js_mul (averageRiskScore boundary_case_tally) (Num 100))) (Num 100) =
     lit (4/10)"
  by code_simp

lemma level_boundary_case:
  "riskLevel_of (averageRiskScore boundary_case_tally) = (''low'', ''green'')"
  by code_simp

lemma weights_boundary_case:
  "recognized_weights boundary_case = [5/10, 7/10, 2/10, 4/10, 2/10]"
  by code_simp

lemma tally_boundary_reordered:
  "tally_factors boundary_case_reordered initial_tally = Some boundary_reordered_tally"
  by code_simp

lemma level_boundary_reordered:
  "riskLevel_of (averageRiskScore boundary_reordered_tally) = (''medium'', ''yellow'')"
  by code_simp

text \<open>
  Claim C2 does not hold of the code. The factors \<open>case_complexity: medium\<close>,
  \<open>evidence_strength: weak\<close>, \<open>opponent_resources: limited\<close>,
  \<open>time_constraints: tight\<close>, \<open>financial_impact: low\<close> pass the validation, and
  their weights 0.5, 0.7, 0.2, 0.4, 0.2 have the mean 0.4. The handler adds them as
  doubles in this order, gets a sum just below 2 and an average just below 0.4, and
  answers with \<open>riskScore\<close> 0.4 and \<open>riskLevel\<close> low, where the claim has medium.
  The same factors with the last two properties exchanged are scored medium.
\<close>

theorem riskLevel_boundary_rounding:
  "validated boundary_case \<and>
   mean (recognized_weights boundary_case) = 4/10 \<and>
   map_option riskScore (risk_assessment (inp\<lparr>in_factors := boundary_case\<rparr>)) =
     Some (lit (4/10)) \<and>
   map_option riskLevel (risk_assessment (inp\<lparr>in_factors := boundary_case\<rparr>)) =
     Some ''low'' \<and>
   mset boundary_case_reordered = mset boundary_case \<and>
   map_option riskLevel (risk_assessment (inp\<lparr>in_factors := boundary_case_reordered\<rparr>)) =
     Some ''medium''"
proof -
  have "validated boundary_case" by code_simp
  moreover have "mean (recognized_weights boundary_case) = 4/10"
    by (simp add: weights_boundary_case mean_def)
  moreover have "mset boundary_case_reordered = mset boundary_case"
    by (simp add: boundary_case_reordered_def boundary_case_def add_mset_commute)
  ultimately show ?thesis
    by (simp add: risk_assessment_def tally_boundary_case tally_boundary_reordered Let_def
        riskScore_boundary_case level_boundary_case level_boundary_reordered)
qed

lemma tally_inherited_key:
  "tally_factors inherited_key_case initial_tally = Some inherited_key_tally"
  by code_simp

lemma riskScore_inherited_key:
  "js_div (Math_round (js_mul (averageRiskScore inherited_key_tally) (Num 100))) (Num 100) =
     NaN"
  by code_simp

lemma level_inherited_key:
  "riskLevel_of (averageRiskScore inherited_key_tally) = (''low'', ''green'')"
  by code_simp

text \<open>
  An entry for which the guard of the loop is falsy leaves no trace: the state of the
  loop after the whole mapping is the state after the mapping without the entry.
\<close>

lemma falsy_entry_is_skipped:
  assumes "riskFactors_get k l = Falsy"
  shows "tally_factors (before @ (k, l) # after) t = tally_factors (before @ after) t"
proof (induction before arbitrary: t)
  case Nil
  show ?case using assms by (simp add: tally_factor_def)
next
  case (Cons kl before)
  show ?case
    by (cases "tally_factor kl t") (simp_all add: Cons.IH)
qed

lemma unknown_key_is_falsy:
  assumes "k \<notin> set (map fst riskFactors)" "k \<notin> set object_prototype_keys"
  shows "riskFactors_get k l = Falsy"
proof -
  have "map_of riskFactors k = None"
    using assms(1) by (simp add: map_of_eq_None_iff)
  then show ?thesis using assms(2) by (simp add: riskFactors_get_def)
qed

text \<open>
  Claim C7 does not hold of the code. The factors of claim C6 with the further entry
  \<open>constructor: name\<close> pass the validation, and the key is none of the five of the
  table. The entry is not skipped: the table inherits the \<open>Object\<close> function under
  \<open>constructor\<close>, whose \<open>name\<close> is a non-empty string, and the loop adds its
  undefined \<open>score\<close> to the sum. The assessment has \<open>riskScore\<close> NaN, \<open>riskLevel\<close> low
  and a sixth entry in the breakdown, where the mapping without the entry has 0.76, high
  and five entries.
\<close>

theorem risk_assessment_inherited_key:
  "validated inherited_key_case \<and>
   inherited_key_case = worst_case @ [(''constructor'', ''name'')] \<and>
   ''constructor'' \<notin> set (map fst riskFactors) \<and>
   map_option scoring_part (risk_assessment (inp\<lparr>in_factors := inherited_key_case\<rparr>)) =
     Some (NaN, ''low'', ''green'',
       assessmentDetails worst_case_tally @
         [(''constructor'', \<lparr>d_value = ''name'', d_score = None, d_description = None\<rparr>)],
       [''Focus on gathering additional evidence'',
        ''Consider expert witnesses or testimony'',
        ''Prioritize critical deadlines'',
        ''Consider requesting extensions where possible'',
        ''Prepare for well-funded opposition'',
        ''Focus on strong legal arguments and precedents'']) \<and>
   map_option riskScore (risk_assessment (inp\<lparr>in_factors := worst_case\<rparr>)) =
     Some (lit (76/100)) \<and>
   map_option riskLevel (risk_assessment (inp\<lparr>in_factors := worst_case\<rparr>)) = Some ''high'' \<and>
   map_option a_factors (risk_assessment (inp\<lparr>in_factors := worst_case\<rparr>)) =
     Some (assessmentDetails worst_case_tally)"
proof -
  have "validated inherited_key_case" by code_simp
  moreover have "''constructor'' \<notin> set (map fst riskFactors)" by code_simp
  moreover have "recommendations_of (averageRiskScore inherited_key_tally) inherited_key_case =
      [''Focus on gathering additional evidence'',
        ''Consider expert witnesses or testimony'',
        ''Prioritize critical deadlines'',
        ''Consider requesting extensions where possible'',
        ''Prepare for well-funded opposition'',
        ''Focus on strong legal arguments and precedents'']"
    by code_simp
  moreover have "assessmentDetails inherited_key_tally =
      assessmentDetails worst_case_tally @
         [(''constructor'', \<lparr>d_value = ''name'', d_score = None, d_description = None\<rparr>)]"
    by (simp add: inherited_key_tally_def)
  moreover have "inherited_key_case = worst_case @ [(''constructor'', ''name'')]"
    by (simp add: inherited_key_case_def)
  ultimately show ?thesis
    by (simp add: risk_assessment_def scoring_part_def tally_inherited_key tally_worst_case
        Let_def riskScore_inherited_key level_inherited_key riskScore_worst_case
        level_worst_case)
qed

end
